theory Spec2Isabelle
  imports Main "HOL-Library.Sublist"
begin

section \<open>Values exchanged with the libraries\<close>

text \<open>
  The two scripts call four libraries: the environment (\<open>os.getenv\<close>), the chat
  completion SDK, \<open>json.loads\<close> and the clock. None of them is code of the repository,
  so each is a field of the record \<open>world\<close> below, and every theorem holds for every
  world. Python strings are lists of code points below 256.
\<close>

text \<open>What \<open>json.loads\<close> returns: \<open>None\<close>, a bool, an int, a float (kept as its
  lexeme), a str, a list or a dict. A dict is an association list read with \<open>map_of\<close>.\<close>

datatype json =
    JNull
  | JBool bool
  | JInt int
  | JFloat string
  | JStr string
  | JArr "json list"
  | JObj "(string \<times> json) list"

text \<open>The exceptions of a run, each with the text \<open>str(e)\<close> gives. \<open>SystemExit\<close> is
  the only one that is not a subclass of \<open>Exception\<close>.\<close>

datatype exn =
    SystemExit nat
  | JSONDecodeError string
  | AttributeError string
  | IndexError string
  | LibraryError string

fun is_Exception :: "exn \<Rightarrow> bool" where
  "is_Exception (SystemExit n) = False"
| "is_Exception (JSONDecodeError m) = True"
| "is_Exception (AttributeError m) = True"
| "is_Exception (IndexError m) = True"
| "is_Exception (LibraryError m) = True"

fun str_exn :: "exn \<Rightarrow> string" where
  "str_exn (SystemExit n) = []"
| "str_exn (JSONDecodeError m) = m"
| "str_exn (AttributeError m) = m"
| "str_exn (IndexError m) = m"
| "str_exn (LibraryError m) = m"

text \<open>A tool-call request of the SDK: \<open>tool_call.id\<close>, \<open>tool_call.function.name\<close> and
  \<open>tool_call.function.arguments\<close> (JSON text).\<close>

record tool_call =
  tc_id :: string
  fn_name :: string
  fn_arguments :: string

text \<open>The SDK's assistant message: \<open>content\<close> and \<open>tool_calls\<close> are both optional.\<close>

record assistant_message =
  am_content :: "string option"
  am_tool_calls :: "tool_call list option"

text \<open>The three shapes of entry the script puts into \<open>messages\<close>: a dict with
  \<open>role\<close> and \<open>content\<close>, the SDK's message object as received, and the dict with
  \<open>tool_call_id\<close>, \<open>role = "tool"\<close>, \<open>name\<close> and \<open>content\<close>.\<close>

datatype message =
    RoleContent string string
  | Reply assistant_message
  | ToolResult string string string

record tool_descriptor =
  td_name :: string
  td_description :: string
  td_properties :: "(string \<times> string \<times> string) list"
  td_required :: "string list"

text \<open>The keyword arguments of \<open>client.chat.completions.create\<close>; \<open>None\<close> is an
  argument that is not passed.\<close>

record request =
  rq_model :: string
  rq_messages :: "message list"
  rq_tools :: "tool_descriptor list option"
  rq_tool_choice :: "string option"

text \<open>A response is its list \<open>choices\<close>, each choice given by its message.\<close>

type_synonym response = "assistant_message list"

text \<open>
  \<^item> \<open>getenv_key\<close>: \<open>os.getenv("OPENAI_API_KEY")\<close> after \<open>load_dotenv()\<close>;
  \<^item> \<open>client\<close>: importing and constructing the SDK client raises (\<open>Inl\<close>, with the
    exception's text) or gives the service, which answers a request or raises. The two
    requests of a run always differ, so a function of the request is as general as a
    service with a state;
  \<^item> \<open>json_loads\<close>: \<open>json.loads\<close>, which raises (\<open>Inl\<close>, with the text) or returns;
  \<^item> \<open>clock\<close>: \<open>datetime.now().strftime("%Y-%m-%d %H:%M:%S")\<close>, read after the given
    number of events of the run;
  \<^item> \<open>str_of\<close>: \<open>str\<close> on a decoded value that is not a string.
\<close>

record world =
  getenv_key :: "string option"
  client :: "string + (request \<Rightarrow> string + response)"
  json_loads :: "string \<Rightarrow> string + json"
  clock :: "nat \<Rightarrow> string"
  str_of :: "json \<Rightarrow> string"

section \<open>State and effects\<close>

text \<open>What a run does that can be seen from outside: a line printed, a call of the
  remote service, a call of one of the two local tool functions with its arguments.\<close>

datatype event =
    Print string
  | RemoteCall request
  | Invoke string "json list"

record state =
  messages :: "message list"
  trace :: "event list"

datatype 'a res = Return 'a | Raise exn

fun then_do :: "'a res \<times> state \<Rightarrow> ('a \<Rightarrow> state \<Rightarrow> 'b res \<times> state) \<Rightarrow> 'b res \<times> state" where
  "then_do (Return x, s) f = f x s"
| "then_do (Raise e, s) f = (Raise e, s)"

definition emit :: "event \<Rightarrow> state \<Rightarrow> state" where
  "emit ev s = s\<lparr>trace := trace s @ [ev]\<rparr>"

definition py_print :: "string \<Rightarrow> state \<Rightarrow> state" where
  "py_print line s = emit (Print line) s"

definition append_message :: "message \<Rightarrow> state \<Rightarrow> state" where
  "append_message m s = s\<lparr>messages := messages s @ [m]\<rparr>"

text \<open>\<open>print(x)\<close> for an optional string prints \<open>None\<close> when there is none.\<close>

fun str_opt :: "string option \<Rightarrow> string" where
  "str_opt None = ''None''"
| "str_opt (Some c) = c"

text \<open>\<open>if x:\<close> on an optional list: \<open>None\<close> and the empty list are both false.\<close>

fun truthy :: "'a list option \<Rightarrow> bool" where
  "truthy None = False"
| "truthy (Some xs) = (xs \<noteq> [])"

fun the_list :: "'a list option \<Rightarrow> 'a list" where
  "the_list None = []"
| "the_list (Some xs) = xs"

section \<open>The functions of the scripts\<close>

definition check_env :: "world \<Rightarrow> state \<Rightarrow> unit res \<times> state" where
  "check_env w s =
     (if getenv_key w = None \<or> getenv_key w = Some []
      then (Raise (SystemExit 1),
            py_print ''Please set it in the .env file or as an environment variable.''
              (py_print ''Error: OPENAI_API_KEY environment variable is not set.'' s))
      else (Return (), s))"

definition get_current_time :: "world \<Rightarrow> state \<Rightarrow> string" where
  "get_current_time w s = clock w (length (trace s))"

definition format_value :: "world \<Rightarrow> json \<Rightarrow> string" where
  "format_value w v = (case v of JStr t \<Rightarrow> t | _ \<Rightarrow> str_of w v)"

text \<open>\<open>get_weather(location="New York")\<close>: \<open>None\<close> is the call without the argument.
  The source file has the two code points C2, B0 between \<open>72\<close> and \<open>F\<close>.\<close>

definition get_weather :: "world \<Rightarrow> json option \<Rightarrow> string" where
  "get_weather w location =
     ''The weather in ''
       @ format_value w (case location of None \<Rightarrow> JStr ''New York'' | Some v \<Rightarrow> v)
       @ '' is currently sunny and 72'' @ [CHR 0xC2, CHR 0xB0] @ ''F.''"

definition tools :: "tool_descriptor list" where
  "tools =
     [\<lparr>td_name = ''get_current_time'',
       td_description = ''Get the current date and time'',
       td_properties = [],
       td_required = []\<rparr>,
      \<lparr>td_name = ''get_weather'',
       td_description = ''Get the current weather for a location'',
       td_properties =
         [(''location'', ''string'', ''The city and state, e.g. San Francisco, CA'')],
       td_required = [''location'']\<rparr>]"

definition initial_messages :: "message list" where
  "initial_messages =
     [RoleContent ''system'' ''You are a helpful assistant with access to tools.'',
      RoleContent ''user''
        (''What time is it now? And what'' @ [CHR 0x27] @ ''s the weather in Tokyo?'')]"

text \<open>\<open>client.chat.completions.create(...)\<close>: the call is made, then it raises or
  returns.\<close>

definition create :: "(request \<Rightarrow> string + response) \<Rightarrow> request \<Rightarrow> state \<Rightarrow> response res \<times> state" where
  "create service rq s =
     (case service rq of
        Inl m \<Rightarrow> (Raise (LibraryError m), emit (RemoteCall rq) s)
      | Inr r \<Rightarrow> (Return r, emit (RemoteCall rq) s))"

text \<open>\<open>response.choices[0].message\<close>.\<close>

fun first_choice :: "response \<Rightarrow> state \<Rightarrow> assistant_message res \<times> state" where
  "first_choice [] s = (Raise (IndexError ''list index out of range''), s)"
| "first_choice (m # ms) s = (Return m, s)"

text \<open>The name Python gives the type of a decoded value, and the text of the
  \<open>AttributeError\<close> for an attribute the value does not have.\<close>

fun type_name :: "json \<Rightarrow> string" where
  "type_name JNull = ''NoneType''"
| "type_name (JBool b) = ''bool''"
| "type_name (JInt i) = ''int''"
| "type_name (JFloat f) = ''float''"
| "type_name (JStr t) = ''str''"
| "type_name (JArr xs) = ''list''"
| "type_name (JObj kvs) = ''dict''"

text \<open>\<open>function_args.get("location", "New York")\<close>: only a dict has \<open>get\<close>.\<close>

definition no_attribute :: "json \<Rightarrow> string \<Rightarrow> string" where
  "no_attribute v a =
     [CHR 0x27] @ type_name v @ [CHR 0x27] @ '' object has no attribute ''
       @ [CHR 0x27] @ a @ [CHR 0x27]"

fun args_get :: "json \<Rightarrow> string \<Rightarrow> json \<Rightarrow> state \<Rightarrow> json res \<times> state" where
  "args_get (JObj kvs) k d s = (Return (case map_of kvs k of None \<Rightarrow> d | Some v \<Rightarrow> v), s)"
| "args_get v k d s = (Raise (AttributeError (no_attribute v ''get'')), s)"

text \<open>Lines 109 to 114: the \<open>if\<close>/\<open>elif\<close>/\<open>else\<close> on the function's name.\<close>

definition dispatch :: "world \<Rightarrow> string \<Rightarrow> json \<Rightarrow> state \<Rightarrow> string res \<times> state" where
  "dispatch w function_name function_args s =
     (if function_name = ''get_current_time''
      then (Return (get_current_time w s), emit (Invoke ''get_current_time'' []) s)
      else if function_name = ''get_weather''
      then then_do (args_get function_args ''location'' (JStr ''New York'') s)
             (\<lambda>location s1.
                (Return (get_weather w (Some location)),
                 emit (Invoke ''get_weather'' [location]) s1))
      else (Return (''Error: Function '' @ function_name @ '' not implemented''), s))"

text \<open>Lines 105 to 124: the body of the loop over \<open>assistant_response.tool_calls\<close>.\<close>

definition process_tool_call :: "world \<Rightarrow> tool_call \<Rightarrow> state \<Rightarrow> unit res \<times> state" where
  "process_tool_call w tc s =
     (case json_loads w (fn_arguments tc) of
        Inl m \<Rightarrow> (Raise (JSONDecodeError m), s)
      | Inr function_args \<Rightarrow>
          then_do (dispatch w (fn_name tc) function_args s)
            (\<lambda>function_response s1.
               (Return (),
                py_print (''Tool used: '' @ fn_name tc)
                  (append_message
                     (ToolResult (tc_id tc) (fn_name tc) function_response) s1))))"

fun process_tool_calls :: "world \<Rightarrow> tool_call list \<Rightarrow> state \<Rightarrow> unit res \<times> state" where
  "process_tool_calls w [] s = (Return (), s)"
| "process_tool_calls w (tc # tcs) s =
     then_do (process_tool_call w tc s) (\<lambda>u s1. process_tool_calls w tcs s1)"

definition first_request :: "message list \<Rightarrow> request" where
  "first_request ms =
     \<lparr>rq_model = ''gpt-3.5-turbo'', rq_messages = ms,
      rq_tools = Some tools, rq_tool_choice = Some ''auto''\<rparr>"

definition followup_request :: "message list \<Rightarrow> request" where
  "followup_request ms =
     \<lparr>rq_model = ''gpt-3.5-turbo'', rq_messages = ms,
      rq_tools = None, rq_tool_choice = None\<rparr>"

text \<open>Lines 102 to 138: what the script does with the assistant's reply once it is
  appended.\<close>

definition answer :: "world \<Rightarrow> (request \<Rightarrow> string + response) \<Rightarrow> assistant_message \<Rightarrow> state \<Rightarrow> unit res \<times> state" where
  "answer w service assistant_response s =
     (if truthy (am_tool_calls assistant_response)
      then then_do (process_tool_calls w (the_list (am_tool_calls assistant_response)) s)
             (\<lambda>u s1.
                then_do (create service (followup_request (messages s1)) s1)
                  (\<lambda>final_response s2.
                     then_do (first_choice final_response
                                (py_print (CHR 0x0A # ''Final Agent Response:'') s2))
                       (\<lambda>final s3. (Return (), py_print (str_opt (am_content final)) s3))))
      else (Return (),
            py_print (str_opt (am_content assistant_response))
              (py_print (CHR 0x0A # ''Agent Response (no tools used):'') s)))"

text \<open>Lines 40 to 140: the body of \<open>try\<close> in the second script.\<close>

definition main_try :: "world \<Rightarrow> state \<Rightarrow> unit res \<times> state" where
  "main_try w s =
     (case client w of
        Inl m \<Rightarrow> (Raise (LibraryError m), s)
      | Inr service \<Rightarrow>
          then_do (create service (first_request initial_messages)
                     (s\<lparr>messages := initial_messages\<rparr>))
            (\<lambda>response s1.
               then_do (first_choice response s1)
                 (\<lambda>assistant_response s2.
                    then_do (answer w service assistant_response
                               (py_print (CHR 0x0A # ''Assistant is thinking...'')
                                  (append_message (Reply assistant_response) s2)))
                      (\<lambda>u s3.
                         (Return (),
                          py_print (CHR 0x0A # ''Use Case 2 completed successfully.'') s3)))))"

text \<open>\<open>except Exception as e\<close>: print the error and \<open>sys.exit(1)\<close>.\<close>

fun handle_exception :: "unit res \<times> state \<Rightarrow> unit res \<times> state" where
  "handle_exception (Return u, s) = (Return u, s)"
| "handle_exception (Raise e, s) =
     (if is_Exception e
      then (Raise (SystemExit 1), py_print (''Error: '' @ str_exn e) s)
      else (Raise e, s))"

definition main :: "world \<Rightarrow> state \<Rightarrow> unit res \<times> state" where
  "main w s =
     then_do (check_env w s)
       (\<lambda>u s1.
          handle_exception
            (main_try w (py_print ''Starting Use Case 2: Agent with Tool Example'' s1)))"

text \<open>The first script: one request with two fixed messages and no tools.\<close>

definition simple_messages :: "message list" where
  "simple_messages =
     [RoleContent ''system'' ''You are a helpful assistant.'',
      RoleContent ''user'' ''Write a haiku about the ocean.'']"

definition simple_try :: "world \<Rightarrow> state \<Rightarrow> unit res \<times> state" where
  "simple_try w s =
     (case client w of
        Inl m \<Rightarrow> (Raise (LibraryError m), s)
      | Inr service \<Rightarrow>
          then_do (create service (followup_request simple_messages) s)
            (\<lambda>response s1.
               then_do (first_choice response (py_print (CHR 0x0A # ''Agent Response:'') s1))
                 (\<lambda>m s2.
                    (Return (),
                     py_print (CHR 0x0A # ''Use Case 1 completed successfully.'')
                       (py_print (str_opt (am_content m)) s2)))))"

definition simple_main :: "world \<Rightarrow> state \<Rightarrow> unit res \<times> state" where
  "simple_main w s =
     then_do (check_env w s)
       (\<lambda>u s1.
          handle_exception
            (simple_try w (py_print ''Starting Use Case 1: Simple Agent Example'' s1)))"

text \<open>The process: it starts with no conversation and nothing done, and its exit status
  is 0 when \<open>main\<close> returns, the argument of \<open>sys.exit\<close>, or 1 after an exception that
  nothing caught.\<close>

definition start :: state where
  "start = \<lparr>messages = [], trace = []\<rparr>"

fun exit_status :: "unit res \<Rightarrow> nat" where
  "exit_status (Return u) = 0"
| "exit_status (Raise (SystemExit n)) = n"
| "exit_status (Raise e) = 1"

definition run :: "world \<Rightarrow> unit res \<times> state" where
  "run w = main w start"

section \<open>Observations of a trace\<close>

fun remote_calls :: "event list \<Rightarrow> request list" where
  "remote_calls [] = []"
| "remote_calls (RemoteCall rq # evs) = rq # remote_calls evs"
| "remote_calls (ev # evs) = remote_calls evs"

fun invocations :: "event list \<Rightarrow> (string \<times> json list) list" where
  "invocations [] = []"
| "invocations (Invoke f args # evs) = (f, args) # invocations evs"
| "invocations (ev # evs) = invocations evs"

fun printed :: "event list \<Rightarrow> string list" where
  "printed [] = []"
| "printed (Print line # evs) = line # printed evs"
| "printed (ev # evs) = printed evs"

text \<open>The calls of a trace, remote and local, in their order: the trace without what it
  prints.\<close>

fun calls :: "event list \<Rightarrow> event list" where
  "calls [] = []"
| "calls (Print line # evs) = calls evs"
| "calls (ev # evs) = ev # calls evs"

section \<open>What a run is expected to do\<close>

text \<open>
  The functions of this section are not code of the scripts: they say, without the
  state, what the scripts are expected to do, and the theorems below compare the scripts
  with them.
\<close>

fun is_object :: "json \<Rightarrow> bool" where
  "is_object (JObj kvs) = True"
| "is_object v = False"

text \<open>A request is dispatchable when its payload decodes and, if it names
  \<open>get_weather\<close>, decodes to an object.\<close>

definition dispatchable :: "world \<Rightarrow> tool_call \<Rightarrow> bool" where
  "dispatchable w tc =
     (case json_loads w (fn_arguments tc) of
        Inl m \<Rightarrow> False
      | Inr v \<Rightarrow> (if fn_name tc = ''get_weather'' then is_object v else True))"

text \<open>The exception a request that is not dispatchable ends with.\<close>

definition failure :: "world \<Rightarrow> tool_call \<Rightarrow> exn" where
  "failure w tc =
     (case json_loads w (fn_arguments tc) of
        Inl m \<Rightarrow> JSONDecodeError m
      | Inr v \<Rightarrow> AttributeError (no_attribute v ''get''))"

fun location_of :: "json \<Rightarrow> json" where
  "location_of (JObj kvs) =
     (case map_of kvs ''location'' of None \<Rightarrow> JStr ''New York'' | Some v \<Rightarrow> v)"
| "location_of v = JStr ''New York''"

text \<open>The calls of local functions a dispatchable request leads to: one for each of the
  two tools, none for any other name.\<close>

definition requested :: "world \<Rightarrow> tool_call \<Rightarrow> event list" where
  "requested w tc =
     (if fn_name tc = ''get_current_time'' then [Invoke ''get_current_time'' []]
      else if fn_name tc = ''get_weather''
      then (case json_loads w (fn_arguments tc) of
              Inl m \<Rightarrow> []
            | Inr v \<Rightarrow> [Invoke ''get_weather'' [location_of v]])
      else [])"

text \<open>The text a dispatchable request is answered with, when the clock is read after
  \<open>k\<close> events.\<close>

definition tool_text :: "world \<Rightarrow> nat \<Rightarrow> tool_call \<Rightarrow> string" where
  "tool_text w k tc =
     (if fn_name tc = ''get_current_time'' then clock w k
      else if fn_name tc = ''get_weather''
      then (case json_loads w (fn_arguments tc) of
              Inl m \<Rightarrow> []
            | Inr v \<Rightarrow> get_weather w (Some (location_of v)))
      else ''Error: Function '' @ fn_name tc @ '' not implemented'')"

fun tool_messages :: "world \<Rightarrow> nat \<Rightarrow> tool_call list \<Rightarrow> message list" where
  "tool_messages w k [] = []"
| "tool_messages w k (tc # tcs) =
     ToolResult (tc_id tc) (fn_name tc) (tool_text w k tc)
       # tool_messages w (k + length (requested w tc) + 1) tcs"

fun tool_events :: "world \<Rightarrow> tool_call list \<Rightarrow> event list" where
  "tool_events w [] = []"
| "tool_events w (tc # tcs) =
     requested w tc @ [Print (''Tool used: '' @ fn_name tc)] @ tool_events w tcs"

text \<open>A message answers a request when it is a tool-role message with the request's id
  and function name.\<close>

fun answers :: "message \<Rightarrow> tool_call \<Rightarrow> bool" where
  "answers (ToolResult i n c) tc = (i = tc_id tc \<and> n = fn_name tc)"
| "answers m tc = False"

text \<open>The run up to the assistant's first reply: the key is set, the client is built and
  the service answers the first request with at least one choice.\<close>

definition key_set :: "world \<Rightarrow> bool" where
  "key_set w = (case getenv_key w of None \<Rightarrow> False | Some k \<Rightarrow> k \<noteq> [])"

definition service_of :: "world \<Rightarrow> request \<Rightarrow> string + response" where
  "service_of w = (case client w of Inl m \<Rightarrow> (\<lambda>rq. Inl m) | Inr service \<Rightarrow> service)"

definition first_reply :: "world \<Rightarrow> assistant_message option" where
  "first_reply w =
     (if key_set w
      then (case client w of
              Inl m \<Rightarrow> None
            | Inr service \<Rightarrow>
                (case service (first_request initial_messages) of
                   Inl m \<Rightarrow> None
                 | Inr [] \<Rightarrow> None
                 | Inr (m # ms) \<Rightarrow> Some m))
      else None)"

definition after_reply :: "assistant_message \<Rightarrow> state" where
  "after_reply m =
     \<lparr>messages = initial_messages @ [Reply m],
      trace = [Print ''Starting Use Case 2: Agent with Tool Example'',
               RemoteCall (first_request initial_messages),
               Print (CHR 0x0A # ''Assistant is thinking...'')]\<rparr>"

text \<open>The conversation once every request of the reply is answered, and the follow-up
  request that carries it.\<close>

definition answered :: "world \<Rightarrow> assistant_message \<Rightarrow> tool_call list \<Rightarrow> message list" where
  "answered w m tcs = initial_messages @ [Reply m] @ tool_messages w 3 tcs"

text \<open>What is printed after the follow-up call, and how the run ends, by the service's
  answer to it.\<close>

fun closing :: "string + response \<Rightarrow> event list" where
  "closing (Inl e) = [Print (''Error: '' @ e)]"
| "closing (Inr []) =
     [Print (CHR 0x0A # ''Final Agent Response:''), Print ''Error: list index out of range'']"
| "closing (Inr (f # fs)) =
     [Print (CHR 0x0A # ''Final Agent Response:''), Print (str_opt (am_content f)),
      Print (CHR 0x0A # ''Use Case 2 completed successfully.'')]"

fun outcome :: "string + response \<Rightarrow> unit res" where
  "outcome (Inr (f # fs)) = Return ()"
| "outcome r = Raise (SystemExit 1)"

section \<open>Sample worlds\<close>

text \<open>
  The closed instances below run the scripts in worlds where the key is set, the service
  answers the first request with a given reply and the follow-up with a fixed one, and the
  clock stands still. \<open>sample_loads\<close> is \<open>json.loads\<close> on the four payloads the instances
  use; it is read on no other payload.
\<close>

definition sample_loads :: "string \<Rightarrow> string + json" where
  "sample_loads p =
     (if p = ''{}'' then Inr (JObj [])
      else if p = ''{\"location\": \"Tokyo\"}'' then Inr (JObj [(''location'', JStr ''Tokyo'')])
      else if p = ''[\"Tokyo\"]'' then Inr (JArr [JStr ''Tokyo''])
      else Inl ''Expecting property name enclosed in double quotes: line 1 column 2 (char 1)'')"

definition sample_final :: assistant_message where
  "sample_final =
     \<lparr>am_content = Some ''It is noon, and Tokyo is sunny.'', am_tool_calls = None\<rparr>"

definition sample_service :: "assistant_message \<Rightarrow> request \<Rightarrow> string + response" where
  "sample_service m rq = (case rq_tools rq of None \<Rightarrow> Inr [sample_final] | Some ts \<Rightarrow> Inr [m])"

definition sample_world :: "assistant_message \<Rightarrow> world" where
  "sample_world m =
     \<lparr>getenv_key = Some ''sk-test'',
      client = Inr (sample_service m),
      json_loads = sample_loads,
      clock = (\<lambda>k. ''2024-05-01 12:00:00''),
      str_of = (\<lambda>v. [])\<rparr>"

definition no_key_world :: world where
  "no_key_world = (sample_world sample_final)\<lparr>getenv_key := None\<rparr>"

definition asks :: "tool_call list \<Rightarrow> assistant_message" where
  "asks tcs = \<lparr>am_content = None, am_tool_calls = Some tcs\<rparr>"

definition call_time :: tool_call where
  "call_time = \<lparr>tc_id = ''call_1'', fn_name = ''get_current_time'', fn_arguments = ''{}''\<rparr>"

definition call_tokyo :: tool_call where
  "call_tokyo =
     \<lparr>tc_id = ''call_2'', fn_name = ''get_weather'',
      fn_arguments = ''{\"location\": \"Tokyo\"}''\<rparr>"

definition call_malformed :: tool_call where
  "call_malformed =
     \<lparr>tc_id = ''call_3'', fn_name = ''get_weather'', fn_arguments = ''{bad''\<rparr>"

definition call_array :: tool_call where
  "call_array =
     \<lparr>tc_id = ''call_4'', fn_name = ''get_weather'', fn_arguments = ''[\"Tokyo\"]''\<rparr>"

definition call_unknown :: tool_call where
  "call_unknown =
     \<lparr>tc_id = ''call_5'', fn_name = ''get_stock_price'', fn_arguments = ''{}''\<rparr>"

definition call_unknown_malformed :: tool_call where
  "call_unknown_malformed =
     \<lparr>tc_id = ''call_6'', fn_name = ''get_stock_price'', fn_arguments = ''{bad''\<rparr>"

section \<open>The scripts against the expectation\<close>

subsection \<open>State, trace and the expected events\<close>

lemma trace_emit [simp]: "trace (emit ev s) = trace s @ [ev]"
  and messages_emit [simp]: "messages (emit ev s) = messages s"
  by (simp_all add: emit_def)

lemma trace_py_print [simp]: "trace (py_print l s) = trace s @ [Print l]"
  and messages_py_print [simp]: "messages (py_print l s) = messages s"
  by (simp_all add: py_print_def)

lemma trace_append_message [simp]: "trace (append_message m s) = trace s"
  and messages_append_message [simp]: "messages (append_message m s) = messages s @ [m]"
  by (simp_all add: append_message_def)

lemma remote_calls_append [simp]: "remote_calls (xs @ ys) = remote_calls xs @ remote_calls ys"
  by (induction xs rule: remote_calls.induct) simp_all

lemma invocations_append [simp]: "invocations (xs @ ys) = invocations xs @ invocations ys"
  by (induction xs rule: invocations.induct) simp_all

lemma printed_append [simp]: "printed (xs @ ys) = printed xs @ printed ys"
  by (induction xs rule: printed.induct) simp_all

lemma remote_calls_requested [simp]: "remote_calls (requested w tc) = []"
  by (simp add: requested_def split: sum.splits)

lemma printed_requested [simp]: "printed (requested w tc) = []"
  by (simp add: requested_def split: sum.splits)

lemma remote_calls_tool_events [simp]: "remote_calls (tool_events w tcs) = []"
  by (induction tcs) simp_all

lemma printed_tool_events:
  "printed (tool_events w tcs) = map (\<lambda>tc. ''Tool used: '' @ fn_name tc) tcs"
  by (induction tcs) simp_all

lemma remote_calls_closing [simp]: "remote_calls (closing r) = []"
  by (cases r rule: closing.cases) simp_all

lemma invocations_closing [simp]: "invocations (closing r) = []"
  by (cases r rule: closing.cases) simp_all

lemma tool_messages_answers: "list_all2 answers (tool_messages w k tcs) tcs"
  by (induction tcs arbitrary: k) simp_all

lemma length_tool_messages [simp]: "length (tool_messages w k tcs) = length tcs"
  by (induction tcs arbitrary: k) simp_all

lemma process_tool_call_ok:
  assumes "dispatchable w tc"
  shows "process_tool_call w tc s =
     (Return (),
      \<lparr>messages = messages s @ [ToolResult (tc_id tc) (fn_name tc) (tool_text w (length (trace s)) tc)],
       trace = trace s @ requested w tc @ [Print (''Tool used: '' @ fn_name tc)]\<rparr>)"
proof (cases "json_loads w (fn_arguments tc)")
  case (Inl m)
  with assms show ?thesis by (simp add: dispatchable_def)
next
  case (Inr v)
  show ?thesis
  proof (cases "fn_name tc = ''get_weather''")
    case True
    with assms Inr obtain kvs where v: "v = JObj kvs"
      by (cases v) (auto simp: dispatchable_def)
    show ?thesis using True Inr v
      by (simp add: process_tool_call_def dispatch_def requested_def tool_text_def)
  next
    case False
    then show ?thesis using Inr
      by (simp add: process_tool_call_def dispatch_def requested_def tool_text_def
            get_current_time_def)
  qed
qed

lemma process_tool_call_fails:
  assumes "\<not> dispatchable w tc"
  shows "process_tool_call w tc s = (Raise (failure w tc), s)"
proof (cases "json_loads w (fn_arguments tc)")
  case (Inl m)
  then show ?thesis by (simp add: process_tool_call_def failure_def)
next
  case (Inr v)
  with assms have n: "fn_name tc = ''get_weather''" and o: "\<not> is_object v"
    by (auto simp: dispatchable_def split: if_splits)
  from o show ?thesis using Inr n
    by (cases v) (simp_all add: process_tool_call_def dispatch_def failure_def)
qed

lemma is_Exception_failure [simp]: "is_Exception (failure w tc)"
  by (simp add: failure_def split: sum.splits)

lemma loop_ok:
  "list_all (dispatchable w) tcs \<Longrightarrow>
     process_tool_calls w tcs s =
       (Return (),
        \<lparr>messages = messages s @ tool_messages w (length (trace s)) tcs,
         trace = trace s @ tool_events w tcs\<rparr>)"
proof (induction tcs arbitrary: s)
  case Nil
  show ?case by simp
next
  case (Cons tc tcs)
  then have d: "dispatchable w tc" and r: "list_all (dispatchable w) tcs" by simp_all
  show ?case by (simp add: process_tool_call_ok [OF d] Cons.IH [OF r] add.assoc)
qed

lemma loop_fails:
  "list_all (dispatchable w) pre \<Longrightarrow> \<not> dispatchable w tc \<Longrightarrow>
     process_tool_calls w (pre @ tc # post) s =
       (Raise (failure w tc),
        \<lparr>messages = messages s @ tool_messages w (length (trace s)) pre,
         trace = trace s @ tool_events w pre\<rparr>)"
proof (induction pre arbitrary: s)
  case Nil
  then show ?case by (simp add: process_tool_call_fails)
next
  case (Cons p pre)
  then have d: "dispatchable w p" and r: "list_all (dispatchable w) pre" by simp_all
  show ?case
    by (simp add: process_tool_call_ok [OF d] Cons.IH [OF r Cons.prems(2)] add.assoc)
qed

lemma check_env_ok: "key_set w \<Longrightarrow> check_env w s = (Return (), s)"
  by (auto simp: key_set_def check_env_def split: option.splits)

lemma run_first_reply:
  assumes "first_reply w = Some m"
  shows "run w =
     handle_exception
       (then_do (answer w (service_of w) m (after_reply m))
          (\<lambda>u s. (Return (), py_print (CHR 0x0A # ''Use Case 2 completed successfully.'') s)))"
proof -
  from assms have k: "key_set w" by (simp add: first_reply_def split: if_splits)
  from assms k obtain service ms where c: "client w = Inr service"
    and a: "service (first_request initial_messages) = Inr (m # ms)"
    by (auto simp: first_reply_def split: sum.splits list.splits)
  have s: "service_of w = service" by (simp add: service_of_def c)
  show ?thesis
    by (simp add: run_def main_def check_env_ok [OF k] main_try_def c s create_def a
          after_reply_def start_def py_print_def emit_def append_message_def)
qed

lemma finish_followup:
  "handle_exception
     (then_do
        (then_do (create service rq s)
           (\<lambda>final_response s2.
              then_do (first_choice final_response
                         (py_print (CHR 0x0A # ''Final Agent Response:'') s2))
                (\<lambda>final s3. (Return (), py_print (str_opt (am_content final)) s3))))
        (\<lambda>u s. (Return (), py_print (CHR 0x0A # ''Use Case 2 completed successfully.'') s)))
   = (outcome (service rq),
      \<lparr>messages = messages s, trace = trace s @ [RemoteCall rq] @ closing (service rq)\<rparr>)"
proof (cases "service rq")
  case (Inl e)
  then show ?thesis by (simp add: create_def)
next
  case (Inr r)
  then show ?thesis by (cases r) (simp_all add: create_def)
qed

lemma run_tools_ok:
  assumes "first_reply w = Some m" and "am_tool_calls m = Some tcs" and "tcs \<noteq> []"
    and "list_all (dispatchable w) tcs"
  shows "run w =
     (outcome (service_of w (followup_request (answered w m tcs))),
      \<lparr>messages = answered w m tcs,
       trace = trace (after_reply m) @ tool_events w tcs
         @ [RemoteCall (followup_request (answered w m tcs))]
         @ closing (service_of w (followup_request (answered w m tcs)))\<rparr>)"
proof -
  have l: "length (trace (after_reply m)) = 3" and ms: "messages (after_reply m) = initial_messages @ [Reply m]"
    by (simp_all add: after_reply_def)
  show ?thesis
    unfolding run_first_reply [OF assms(1)] answer_def
    using assms(2,3)
    by (simp add: loop_ok [OF assms(4)] l ms finish_followup answered_def)
qed

lemma run_tools_fail:
  assumes "first_reply w = Some m" and "am_tool_calls m = Some (pre @ tc # post)"
    and "list_all (dispatchable w) pre" and "\<not> dispatchable w tc"
  shows "run w =
     (Raise (SystemExit 1),
      \<lparr>messages = answered w m pre,
       trace = trace (after_reply m) @ tool_events w pre
         @ [Print (''Error: '' @ str_exn (failure w tc))]\<rparr>)"
proof -
  have l: "length (trace (after_reply m)) = 3" and ms: "messages (after_reply m) = initial_messages @ [Reply m]"
    by (simp_all add: after_reply_def)
  show ?thesis
    unfolding run_first_reply [OF assms(1)] answer_def
    using assms(2)
    by (simp add: loop_fails [OF assms(3,4)] l ms answered_def)
qed

lemma run_no_tools:
  assumes "first_reply w = Some m" and "\<not> truthy (am_tool_calls m)"
  shows "run w =
     (Return (),
      \<lparr>messages = initial_messages @ [Reply m],
       trace = trace (after_reply m)
         @ [Print (CHR 0x0A # ''Agent Response (no tools used):''),
            Print (str_opt (am_content m)),
            Print (CHR 0x0A # ''Use Case 2 completed successfully.'')]\<rparr>)"
  unfolding run_first_reply [OF assms(1)] answer_def
  using assms(2) by (simp add: after_reply_def)

lemma sample_first_reply: "first_reply (sample_world m) = Some m"
  by (simp add: first_reply_def key_set_def sample_world_def sample_service_def first_request_def)

lemma sample_dispatchable:
  "dispatchable (sample_world m) call_time" "dispatchable (sample_world m) call_tokyo"
  "dispatchable (sample_world m) call_unknown"
  "\<not> dispatchable (sample_world m) call_malformed"
  "\<not> dispatchable (sample_world m) call_array"
  "\<not> dispatchable (sample_world m) call_unknown_malformed"
  by (simp_all add: dispatchable_def sample_world_def sample_loads_def call_time_def
        call_tokyo_def call_unknown_def call_malformed_def call_array_def
        call_unknown_malformed_def)

lemma sample_failure:
  "failure (sample_world m) call_malformed =
     JSONDecodeError ''Expecting property name enclosed in double quotes: line 1 column 2 (char 1)''"
  "failure (sample_world m) call_unknown_malformed =
     JSONDecodeError ''Expecting property name enclosed in double quotes: line 1 column 2 (char 1)''"
  "failure (sample_world m) call_array = AttributeError (no_attribute (JArr [JStr ''Tokyo'']) ''get'')"
  by (simp_all add: failure_def sample_world_def sample_loads_def call_malformed_def
        call_array_def call_unknown_malformed_def)

lemma unknown_message_in_tool_messages:
  assumes "tc \<in> set tcs" and "fn_name tc \<noteq> ''get_current_time''"
    and "fn_name tc \<noteq> ''get_weather''"
  shows "ToolResult (tc_id tc) (fn_name tc)
           (''Error: Function '' @ fn_name tc @ '' not implemented'')
         \<in> set (tool_messages w k tcs)"
  using assms by (induction tcs arbitrary: k) (auto simp: tool_text_def)

subsection \<open>Every operation extends the conversation\<close>

lemma prefix_then_do:
  assumes "prefix ms (messages (snd p))"
    and "\<And>x t. prefix ms (messages t) \<Longrightarrow> prefix ms (messages (snd (f x t)))"
  shows "prefix ms (messages (snd (then_do p f)))"
proof (cases p)
  case (Pair r t)
  with assms show ?thesis by (cases r) simp_all
qed

lemma messages_create [simp]: "messages (snd (create service rq s)) = messages s"
  by (simp add: create_def split: sum.splits)

lemma messages_first_choice [simp]: "messages (snd (first_choice r s)) = messages s"
  by (cases r) simp_all

lemma messages_check_env [simp]: "messages (snd (check_env w s)) = messages s"
  by (simp add: check_env_def)

lemma messages_handle_exception [simp]:
  "messages (snd (handle_exception p)) = messages (snd p)"
proof (cases p)
  case (Pair r t)
  then show ?thesis by (cases r) simp_all
qed

lemma messages_dispatch [simp]: "messages (snd (dispatch w n a s)) = messages s"
  by (cases a) (simp_all add: dispatch_def)

lemma prefix_process_tool_call:
  "prefix (messages s) (messages (snd (process_tool_call w tc s)))"
proof (cases "dispatchable w tc")
  case True
  then show ?thesis by (simp add: process_tool_call_ok)
next
  case False
  then show ?thesis by (simp add: process_tool_call_fails)
qed

lemma prefix_process_tool_calls:
  "prefix ms (messages s) \<Longrightarrow> prefix ms (messages (snd (process_tool_calls w tcs s)))"
proof (induction tcs arbitrary: s)
  case Nil
  then show ?case by simp
next
  case (Cons tc tcs)
  have "prefix ms (messages (snd (process_tool_call w tc s)))"
    using Cons.prems prefix_process_tool_call [of s w tc] by (rule prefix_order.trans)
  then show ?case by (simp add: prefix_then_do Cons.IH)
qed

lemma prefix_answer:
  "prefix ms (messages s) \<Longrightarrow> prefix ms (messages (snd (answer w service m s)))"
  unfolding answer_def
  by (auto intro!: prefix_then_do prefix_process_tool_calls)

lemma prefix_main_try:
  "messages (snd (main_try w s)) = messages s
    \<or> prefix initial_messages (messages (snd (main_try w s)))"
proof (cases "client w")
  case (Inl e)
  then show ?thesis by (simp add: main_try_def)
next
  case (Inr service)
  have "prefix initial_messages (messages (snd (main_try w s)))"
    unfolding main_try_def Inr
    by (auto intro!: prefix_then_do prefix_answer prefix_order.trans [OF _ prefix_process_tool_call])
  then show ?thesis ..
qed

subsection \<open>Calls of a run\<close>

lemma calls_append [simp]: "calls (xs @ ys) = calls xs @ calls ys"
  by (induction xs rule: calls.induct) simp_all

lemma calls_requested [simp]: "calls (requested w tc) = requested w tc"
  by (simp add: requested_def split: sum.splits)

lemma calls_tool_events [simp]: "calls (tool_events w tcs) = concat (map (requested w) tcs)"
  by (induction tcs) simp_all

lemma calls_closing [simp]: "calls (closing r) = []"
  by (cases r rule: closing.cases) simp_all

lemma invoked_names_requested:
  "dispatchable w tc \<Longrightarrow>
     map fst (invocations (requested w tc)) =
       filter (\<lambda>n. n = ''get_current_time'' \<or> n = ''get_weather'') [fn_name tc]"
  by (auto simp: requested_def dispatchable_def split: sum.splits)

lemma invoked_names_tool_events:
  "list_all (dispatchable w) tcs \<Longrightarrow>
     map fst (invocations (tool_events w tcs)) =
       filter (\<lambda>n. n = ''get_current_time'' \<or> n = ''get_weather'') (map fn_name tcs)"
proof (induction tcs)
  case Nil
  show ?case by simp
next
  case (Cons tc tcs)
  then have d: "dispatchable w tc" and r: "list_all (dispatchable w) tcs" by simp_all
  from invoked_names_requested [OF d] Cons.IH [OF r] show ?case by simp
qed

lemma first_failure:
  assumes "\<not> list_all (dispatchable w) tcs"
  obtains pre tc post where "tcs = pre @ tc # post" and "list_all (dispatchable w) pre"
    and "\<not> dispatchable w tc"
proof -
  from assms have "\<exists>x\<in>set tcs. \<not> dispatchable w x" by (simp add: list_all_iff)
  from split_list_first_prop [OF this] obtain pre tc post
    where "tcs = pre @ tc # post" "\<not> dispatchable w tc" "\<forall>y\<in>set pre. \<not> \<not> dispatchable w y"
    by blast
  then show ?thesis using that by (simp add: list_all_iff)
qed

lemma first_reply_cases:
  assumes "first_reply w = None"
  shows "length (remote_calls (trace (snd (run w)))) \<le> 1"
proof (cases "key_set w")
  case False
  then have "check_env w start =
      (Raise (SystemExit 1),
       py_print ''Please set it in the .env file or as an environment variable.''
         (py_print ''Error: OPENAI_API_KEY environment variable is not set.'' start))"
    by (auto simp: key_set_def check_env_def split: option.splits)
  then show ?thesis by (simp add: run_def main_def start_def)
next
  case True
  show ?thesis
  proof (cases "client w")
    case (Inl e)
    then show ?thesis
      by (simp add: run_def main_def check_env_ok [OF True] main_try_def start_def)
  next
    case (Inr service)
    show ?thesis
    proof (cases "service (first_request initial_messages)")
      case (Inl e)
      then show ?thesis
        by (simp add: run_def main_def check_env_ok [OF True] main_try_def Inr create_def
              start_def)
    next
      case r: (Inr r)
      with assms True Inr have "r = []"
        by (simp add: first_reply_def split: list.splits)
      with r show ?thesis
        by (simp add: run_def main_def check_env_ok [OF True] main_try_def Inr create_def
              start_def)
    qed
  qed
qed

lemma at_most_two_remote_calls: "length (remote_calls (trace (snd (run w)))) \<le> 2"
proof (cases "first_reply w")
  case None
  from first_reply_cases [OF this] show ?thesis by simp
next
  case (Some m)
  show ?thesis
  proof (cases "truthy (am_tool_calls m)")
    case False
    from run_no_tools [OF Some this] show ?thesis by (simp add: after_reply_def)
  next
    case True
    then obtain tcs where a: "am_tool_calls m = Some tcs" and n: "tcs \<noteq> []"
      by (cases "am_tool_calls m") simp_all
    show ?thesis
    proof (cases "list_all (dispatchable w) tcs")
      case True
      from run_tools_ok [OF Some a n True] show ?thesis by (simp add: after_reply_def)
    next
      case False
      from first_failure [OF False] obtain pre tc post
        where t: "tcs = pre @ tc # post" and p: "list_all (dispatchable w) pre"
          and d: "\<not> dispatchable w tc" by blast
      from run_tools_fail [OF Some a [unfolded t] p d] show ?thesis
        by (simp add: after_reply_def)
    qed
  qed
qed

lemma sample_followup:
  "service_of (sample_world m) (followup_request ms) = Inr [sample_final]"
  by (simp add: service_of_def sample_world_def sample_service_def followup_request_def)

lemma sample_clock: "clock (sample_world m) = (\<lambda>k. ''2024-05-01 12:00:00'')"
  by (simp add: sample_world_def)

lemma sample_names:
  "fn_name call_time = ''get_current_time''" "tc_id call_time = ''call_1''"
  "fn_name call_tokyo = ''get_weather''" "tc_id call_tokyo = ''call_2''"
  "fn_name call_unknown = ''get_stock_price''" "tc_id call_unknown = ''call_5''"
  by (simp_all add: call_time_def call_tokyo_def call_unknown_def)

lemma sample_tokyo:
  "json_loads (sample_world m) (fn_arguments call_tokyo) =
     Inr (JObj [(''location'', JStr ''Tokyo'')])"
  by (simp add: call_tokyo_def sample_world_def sample_loads_def)

subsection \<open>The conversation at the end of a run\<close>

lemma run_without_reply:
  assumes "first_reply w = None"
  shows "(remote_calls (trace (snd (run w))) = [] \<and> messages (snd (run w)) = [])
    \<or> (remote_calls (trace (snd (run w))) = [first_request initial_messages]
        \<and> messages (snd (run w)) = initial_messages)"
proof (cases "key_set w")
  case False
  then have "check_env w start =
      (Raise (SystemExit 1),
       py_print ''Please set it in the .env file or as an environment variable.''
         (py_print ''Error: OPENAI_API_KEY environment variable is not set.'' start))"
    by (auto simp: key_set_def check_env_def split: option.splits)
  then show ?thesis by (simp add: run_def main_def start_def)
next
  case True
  show ?thesis
  proof (cases "client w")
    case (Inl e)
    then show ?thesis
      by (simp add: run_def main_def check_env_ok [OF True] main_try_def start_def)
  next
    case (Inr service)
    show ?thesis
    proof (cases "service (first_request initial_messages)")
      case (Inl e)
      then show ?thesis
        by (simp add: run_def main_def check_env_ok [OF True] main_try_def Inr create_def
              start_def emit_def py_print_def)
    next
      case r: (Inr r)
      with assms True Inr have "r = []"
        by (simp add: first_reply_def split: list.splits)
      with r show ?thesis
        by (simp add: run_def main_def check_env_ok [OF True] main_try_def Inr create_def
              start_def emit_def py_print_def)
    qed
  qed
qed

lemma run_with_reply:
  assumes "first_reply w = Some m" and "am_tool_calls m = Some tcs"
  shows "messages (snd (run w)) =
        initial_messages @ [Reply m] @ tool_messages w 3 (takeWhile (dispatchable w) tcs)
    \<and> remote_calls (trace (snd (run w))) =
        first_request initial_messages
          # (if tcs \<noteq> [] \<and> list_all (dispatchable w) tcs
             then [followup_request (messages (snd (run w)))] else [])"
proof (cases "tcs = []")
  case True
  with assms(2) have "\<not> truthy (am_tool_calls m)" by simp
  from run_no_tools [OF assms(1) this] True show ?thesis by (simp add: after_reply_def)
next
  case n: False
  show ?thesis
  proof (cases "list_all (dispatchable w) tcs")
    case True
    then have tw: "takeWhile (dispatchable w) tcs = tcs" by (simp add: list_all_iff)
    show ?thesis unfolding tw
      using run_tools_ok [OF assms n True] n True
      by (simp add: after_reply_def answered_def)
  next
    case False
    from first_failure [OF False] obtain pre tc post
      where t: "tcs = pre @ tc # post" and p: "list_all (dispatchable w) pre"
        and d: "\<not> dispatchable w tc" by blast
    from p d have tw: "takeWhile (dispatchable w) tcs = pre"
      unfolding t by (simp add: list_all_iff)
    show ?thesis unfolding tw
      using run_tools_fail [OF assms(1) assms(2) [unfolded t] p d] False
      by (simp add: after_reply_def answered_def)
  qed
qed

lemma run_with_reply_no_calls:
  assumes "first_reply w = Some m" and "am_tool_calls m = None"
  shows "messages (snd (run w)) = initial_messages @ [Reply m]
    \<and> remote_calls (trace (snd (run w))) = [first_request initial_messages]"
proof -
  from assms(2) have "\<not> truthy (am_tool_calls m)" by simp
  from run_no_tools [OF assms(1) this] show ?thesis by (simp add: after_reply_def)
qed

lemma requests_are_prefixes:
  "\<forall>rq\<in>set (remote_calls (trace (snd (run w)))). prefix (rq_messages rq) (messages (snd (run w)))"
proof (cases "first_reply w")
  case None
  from run_without_reply [OF this] show ?thesis by (auto simp: first_request_def)
next
  case (Some m)
  show ?thesis
  proof (cases "am_tool_calls m")
    case None
    from run_with_reply_no_calls [OF Some this] show ?thesis by (simp add: first_request_def)
  next
    case a: (Some tcs)
    from run_with_reply [OF Some a] show ?thesis
      by (simp add: first_request_def followup_request_def)
  qed
qed

lemma reply_stays:
  assumes "first_reply w = Some m"
  shows "prefix (initial_messages @ [Reply m]) (messages (snd (run w)))"
proof (cases "am_tool_calls m")
  case None
  from run_with_reply_no_calls [OF assms this] show ?thesis by simp
next
  case (Some tcs)
  from run_with_reply [OF assms this] show ?thesis by simp
qed

lemma loop_messages:
  "messages (snd (process_tool_calls w tcs s)) =
     messages s @ tool_messages w (length (trace s)) (takeWhile (dispatchable w) tcs)"
proof (cases "list_all (dispatchable w) tcs")
  case True
  then have tw: "takeWhile (dispatchable w) tcs = tcs" by (simp add: list_all_iff)
  show ?thesis unfolding tw by (simp add: loop_ok [OF True])
next
  case False
  from first_failure [OF False] obtain pre tc post
    where t: "tcs = pre @ tc # post" and p: "list_all (dispatchable w) pre"
      and d: "\<not> dispatchable w tc" by blast
  from p d have tw: "takeWhile (dispatchable w) tcs = pre"
    unfolding t by (simp add: list_all_iff)
  show ?thesis unfolding tw unfolding t by (simp add: loop_fails [OF p d])
qed





lemma sample_two_calls:
  "run (sample_world (asks [call_time, call_tokyo])) =
     (Return (),
      \<lparr>messages = initial_messages @ [Reply (asks [call_time, call_tokyo]),
         ToolResult ''call_1'' ''get_current_time'' ''2024-05-01 12:00:00'',
         ToolResult ''call_2'' ''get_weather''
           (''The weather in Tokyo is currently sunny and 72'' @ [CHR 0xC2, CHR 0xB0] @ ''F.'')],
       trace =
        [Print ''Starting Use Case 2: Agent with Tool Example'',
         RemoteCall (first_request initial_messages),
         Print (CHR 0x0A # ''Assistant is thinking...''),
         Invoke ''get_current_time'' [],
         Print ''Tool used: get_current_time'',
         Invoke ''get_weather'' [JStr ''Tokyo''],
         Print ''Tool used: get_weather'',
         RemoteCall (followup_request
           (initial_messages @ [Reply (asks [call_time, call_tokyo]),
              ToolResult ''call_1'' ''get_current_time'' ''2024-05-01 12:00:00'',
              ToolResult ''call_2'' ''get_weather''
                (''The weather in Tokyo is currently sunny and 72'' @ [CHR 0xC2, CHR 0xB0]
                   @ ''F.'')])),
         Print (CHR 0x0A # ''Final Agent Response:''),
         Print ''It is noon, and Tokyo is sunny.'',
         Print (CHR 0x0A # ''Use Case 2 completed successfully.'')]\<rparr>)"
proof -
  let ?m = "asks [call_time, call_tokyo]"
  let ?w = "sample_world ?m"
  have a: "am_tool_calls ?m = Some [call_time, call_tokyo]" by (simp add: asks_def)
  have o: "list_all (dispatchable ?w) [call_time, call_tokyo]"
    by (simp add: sample_dispatchable)
  have n: "[call_time, call_tokyo] \<noteq> []" by simp
  show ?thesis
    unfolding run_tools_ok [OF sample_first_reply a n o]
    by (simp add: sample_followup after_reply_def answered_def tool_text_def requested_def
          sample_names sample_tokyo sample_clock get_weather_def format_value_def
          sample_final_def)
qed

section \<open>The claims\<close>

text \<open>
  C3. When the assistant's first reply carries no tool-call request (\<open>tool_calls\<close> is
  \<open>None\<close> or the empty list), the run prints that reply's content as the answer (the
  content itself when there is one, the text \<open>None\<close> when there is none), calls no local
  tool function, makes the first remote call and no other, and returns.
\<close>

theorem no_tool_calls_one_round_trip:
  assumes "first_reply w = Some m"
    and "am_tool_calls m = None \<or> am_tool_calls m = Some []"
  shows "fst (run w) = Return ()
    \<and> printed (trace (snd (run w))) =
        [''Starting Use Case 2: Agent with Tool Example'',
         CHR 0x0A # ''Assistant is thinking...'',
         CHR 0x0A # ''Agent Response (no tools used):'',
         (case am_content m of None \<Rightarrow> ''None'' | Some c \<Rightarrow> c),
         CHR 0x0A # ''Use Case 2 completed successfully.'']
    \<and> invocations (trace (snd (run w))) = []
    \<and> remote_calls (trace (snd (run w))) =
        [\<lparr>rq_model = ''gpt-3.5-turbo'', rq_messages = initial_messages,
          rq_tools = Some tools, rq_tool_choice = Some ''auto''\<rparr>]
    \<and> messages (snd (run w)) = initial_messages @ [Reply m]"
proof -
  from assms(2) have t: "\<not> truthy (am_tool_calls m)" by auto
  have c: "str_opt (am_content m) = (case am_content m of None \<Rightarrow> ''None'' | Some c \<Rightarrow> c)"
    by (cases "am_content m") simp_all
  show ?thesis
    by (simp add: run_no_tools [OF assms(1) t] after_reply_def c first_request_def)
qed

theorem no_tool_calls_one_round_trip_witness:
  "first_reply (sample_world sample_final) = Some sample_final
    \<and> am_tool_calls sample_final = None
    \<and> fst (run (sample_world sample_final)) = Return ()
    \<and> printed (trace (snd (run (sample_world sample_final)))) =
        [''Starting Use Case 2: Agent with Tool Example'',
         CHR 0x0A # ''Assistant is thinking...'',
         CHR 0x0A # ''Agent Response (no tools used):'',
         ''It is noon, and Tokyo is sunny.'',
         CHR 0x0A # ''Use Case 2 completed successfully.'']
    \<and> length (remote_calls (trace (snd (run (sample_world sample_final))))) = 1
    \<and> first_reply (sample_world (asks [])) = Some (asks [])
    \<and> am_tool_calls (asks []) = Some []
    \<and> printed (trace (snd (run (sample_world (asks []))))) =
        [''Starting Use Case 2: Agent with Tool Example'',
         CHR 0x0A # ''Assistant is thinking...'',
         CHR 0x0A # ''Agent Response (no tools used):'',
         ''None'',
         CHR 0x0A # ''Use Case 2 completed successfully.'']
    \<and> length (remote_calls (trace (snd (run (sample_world (asks [])))))) = 1"
proof -
  have t: "am_tool_calls sample_final = None \<or> am_tool_calls sample_final = Some []"
    by (simp add: sample_final_def)
  have u: "am_tool_calls (asks []) = None \<or> am_tool_calls (asks []) = Some []"
    by (simp add: asks_def)
  from no_tool_calls_one_round_trip [OF sample_first_reply t]
    no_tool_calls_one_round_trip [OF sample_first_reply u]
  show ?thesis
    by (simp add: sample_first_reply sample_final_def asks_def)
qed

text \<open>
  C8. When \<open>OPENAI_API_KEY\<close> is not set (or is empty), either script prints the two
  lines of the error and exits with status 1, and its trace has no remote call.
\<close>

theorem missing_key_exits_first:
  assumes "getenv_key w = None \<or> getenv_key w = Some []"
  shows "main w start =
      (Raise (SystemExit 1),
       \<lparr>messages = [],
        trace = [Print ''Error: OPENAI_API_KEY environment variable is not set.'',
                 Print ''Please set it in the .env file or as an environment variable.'']\<rparr>)
    \<and> simple_main w start = main w start
    \<and> exit_status (fst (main w start)) = 1
    \<and> remote_calls (trace (snd (main w start))) = []"
  using assms
  by (auto simp: main_def simple_main_def check_env_def start_def py_print_def emit_def)

theorem missing_key_exits_first_witness:
  "getenv_key no_key_world = None
    \<and> exit_status (fst (main no_key_world start)) = 1
    \<and> exit_status (fst (simple_main no_key_world start)) = 1
    \<and> remote_calls (trace (snd (main no_key_world start))) = []
    \<and> remote_calls (trace (snd (simple_main no_key_world start))) = []"
proof -
  have k: "getenv_key no_key_world = None \<or> getenv_key no_key_world = Some []"
    by (simp add: no_key_world_def)
  from missing_key_exits_first [OF k] show ?thesis
    by (simp add: no_key_world_def)
qed

text \<open>
  C7. For every string \<open>L\<close>, \<open>get_weather(L)\<close> is the sentence "The weather in L is
  currently sunny and 72", then the two code points U+00C2 and U+00B0 that line 31 of the
  source file holds, then "F."; it is not the sentence with the degree sign U+00B0 alone.
  Without an argument the location is New York.
\<close>

theorem get_weather_degree_sign:
  "get_weather w (Some (JStr L)) =
      ''The weather in '' @ L @ '' is currently sunny and 72'' @ [CHR 0xC2, CHR 0xB0] @ ''F.''
    \<and> get_weather w (Some (JStr L)) \<noteq>
      ''The weather in '' @ L @ '' is currently sunny and 72'' @ [CHR 0xB0] @ ''F.''
    \<and> get_weather w None =
      ''The weather in New York is currently sunny and 72'' @ [CHR 0xC2, CHR 0xB0] @ ''F.''"
  by (simp add: get_weather_def format_value_def)

text \<open>
  C2, as the code has it. A payload that \<open>json.loads\<close> rejects aborts the dispatch: the
  request's function is not called and no message is appended for it, and the run ends in
  the handler of \<open>main\<close>, which prints the error and exits with status 1, without a
  follow-up request.
\<close>

theorem malformed_payload_aborts:
  assumes "json_loads w (fn_arguments tc) = Inl e"
  shows "process_tool_call w tc s = (Raise (JSONDecodeError e), s)
    \<and> (first_reply w = Some m \<and> am_tool_calls m = Some (pre @ tc # post)
          \<and> list_all (dispatchable w) pre
        \<longrightarrow> run w =
            (Raise (SystemExit 1),
             \<lparr>messages = answered w m pre,
              trace = trace (after_reply m) @ tool_events w pre @ [Print (''Error: '' @ e)]\<rparr>)
          \<and> remote_calls (trace (snd (run w))) = [first_request initial_messages]
          \<and> exit_status (fst (run w)) = 1)"
proof -
  have d: "\<not> dispatchable w tc" and f: "failure w tc = JSONDecodeError e"
    using assms by (simp_all add: dispatchable_def failure_def)
  have "process_tool_call w tc s = (Raise (JSONDecodeError e), s)"
    using process_tool_call_fails [OF d, of s] by (simp add: f)
  moreover have "run w =
            (Raise (SystemExit 1),
             \<lparr>messages = answered w m pre,
              trace = trace (after_reply m) @ tool_events w pre @ [Print (''Error: '' @ e)]\<rparr>)
          \<and> remote_calls (trace (snd (run w))) = [first_request initial_messages]
          \<and> exit_status (fst (run w)) = 1"
    if "first_reply w = Some m" and "am_tool_calls m = Some (pre @ tc # post)"
      and "list_all (dispatchable w) pre"
    using run_tools_fail [OF that d] by (simp add: f after_reply_def)
  ultimately show ?thesis by blast
qed

theorem malformed_payload_aborts_witness:
  "json_loads (sample_world (asks [call_time, call_malformed, call_tokyo])) (fn_arguments call_malformed) =
      Inl ''Expecting property name enclosed in double quotes: line 1 column 2 (char 1)''
    \<and> fst (process_tool_call (sample_world (asks [call_time, call_malformed, call_tokyo]))
             call_malformed start) =
        Raise (JSONDecodeError
          ''Expecting property name enclosed in double quotes: line 1 column 2 (char 1)'')
    \<and> messages (snd (run (sample_world (asks [call_time, call_malformed, call_tokyo])))) =
        initial_messages @ [Reply (asks [call_time, call_malformed, call_tokyo]),
          ToolResult ''call_1'' ''get_current_time'' ''2024-05-01 12:00:00'']
    \<and> calls (trace (snd (run (sample_world (asks [call_time, call_malformed, call_tokyo]))))) =
        [RemoteCall (first_request initial_messages), Invoke ''get_current_time'' []]
    \<and> exit_status (fst (run (sample_world (asks [call_time, call_malformed, call_tokyo])))) = 1"
proof -
  let ?m = "asks [call_time, call_malformed, call_tokyo]"
  have j: "json_loads (sample_world ?m) (fn_arguments call_malformed) =
      Inl ''Expecting property name enclosed in double quotes: line 1 column 2 (char 1)''"
    by (simp add: call_malformed_def sample_world_def sample_loads_def)
  have a: "am_tool_calls ?m = Some ([call_time] @ call_malformed # [call_tokyo])"
    by (simp add: asks_def)
  have p: "list_all (dispatchable (sample_world ?m)) [call_time]"
    by (simp add: dispatchable_def call_time_def sample_world_def sample_loads_def)
  note t = malformed_payload_aborts [OF j, of start ?m "[call_time]" "[call_tokyo]"]
  from t have c: "process_tool_call (sample_world ?m) call_malformed start =
      (Raise (JSONDecodeError
         ''Expecting property name enclosed in double quotes: line 1 column 2 (char 1)''), start)"
    by simp
  from t sample_first_reply [of ?m] a p
  have r: "run (sample_world ?m) =
      (Raise (SystemExit 1),
       \<lparr>messages = answered (sample_world ?m) ?m [call_time],
        trace = trace (after_reply ?m) @ tool_events (sample_world ?m) [call_time]
          @ [Print (''Error: '' @
               ''Expecting property name enclosed in double quotes: line 1 column 2 (char 1)'')]\<rparr>)"
    by simp
  have n: "fn_name call_time = ''get_current_time''" "tc_id call_time = ''call_1''"
    by (simp_all add: call_time_def)
  have k: "clock (sample_world ?m) = (\<lambda>k. ''2024-05-01 12:00:00'')"
    by (simp add: sample_world_def)
  show ?thesis unfolding r c
    by (simp add: j answered_def after_reply_def tool_text_def requested_def n k)
qed

text \<open>
  C2, as the specification states it, fails: for the payload \<open>{bad\<close> of a request for
  \<open>get_weather\<close>, the dispatch raises, \<open>get_weather\<close> is never called, and the run
  exits with status 1 after the first remote call.
\<close>

theorem malformed_payload_counterexample:
  "process_tool_call (sample_world (asks [call_malformed])) call_malformed start =
      (Raise (JSONDecodeError
         ''Expecting property name enclosed in double quotes: line 1 column 2 (char 1)''),
       start)
    \<and> invocations (trace (snd (run (sample_world (asks [call_malformed]))))) = []
    \<and> messages (snd (run (sample_world (asks [call_malformed])))) =
        initial_messages @ [Reply (asks [call_malformed])]
    \<and> remote_calls (trace (snd (run (sample_world (asks [call_malformed]))))) =
        [first_request initial_messages]
    \<and> fst (run (sample_world (asks [call_malformed]))) = Raise (SystemExit 1)"
proof -
  let ?m = "asks [call_malformed]"
  have a: "am_tool_calls ?m = Some ([] @ call_malformed # [])" by (simp add: asks_def)
  have r: "run (sample_world ?m) =
     (Raise (SystemExit 1),
      \<lparr>messages = answered (sample_world ?m) ?m [],
       trace = trace (after_reply ?m) @ tool_events (sample_world ?m) []
         @ [Print (''Error: '' @ str_exn (failure (sample_world ?m) call_malformed))]\<rparr>)"
    by (rule run_tools_fail [OF sample_first_reply a _ sample_dispatchable(4)]) simp
  show ?thesis unfolding r
    by (simp add: process_tool_call_fails [OF sample_dispatchable(4)] sample_failure
          answered_def after_reply_def)
qed

text \<open>
  C10. A request for \<open>get_weather\<close> whose payload decodes returns exactly when the decoded
  value is an object. For any other value it raises the \<open>AttributeError\<close> of the missing
  \<open>get\<close>: no message is appended for that request, and the run ends in the handler of
  \<open>main\<close> with exit status 1.
\<close>

theorem non_object_arguments_raise:
  assumes "fn_name tc = ''get_weather''" and "json_loads w (fn_arguments tc) = Inr v"
  shows "(fst (process_tool_call w tc s) = Return ()) = is_object v
    \<and> (\<not> is_object v \<longrightarrow>
          process_tool_call w tc s = (Raise (AttributeError (no_attribute v ''get'')), s)
          \<and> (first_reply w = Some m \<and> am_tool_calls m = Some (pre @ tc # post)
                \<and> list_all (dispatchable w) pre
              \<longrightarrow> run w =
                  (Raise (SystemExit 1),
                   \<lparr>messages = answered w m pre,
                    trace = trace (after_reply m) @ tool_events w pre
                      @ [Print (''Error: '' @ no_attribute v ''get'')]\<rparr>)
                \<and> exit_status (fst (run w)) = 1))"
proof (cases "is_object v")
  case True
  then have "dispatchable w tc" using assms by (simp add: dispatchable_def)
  from process_tool_call_ok [OF this, of s] True show ?thesis by simp
next
  case False
  then have d: "\<not> dispatchable w tc" and f: "failure w tc = AttributeError (no_attribute v ''get'')"
    using assms by (simp_all add: dispatchable_def failure_def)
  have p: "process_tool_call w tc s = (Raise (AttributeError (no_attribute v ''get'')), s)"
    using process_tool_call_fails [OF d, of s] by (simp add: f)
  have "run w =
          (Raise (SystemExit 1),
           \<lparr>messages = answered w m pre,
            trace = trace (after_reply m) @ tool_events w pre
              @ [Print (''Error: '' @ no_attribute v ''get'')]\<rparr>)
        \<and> exit_status (fst (run w)) = 1"
    if "first_reply w = Some m" and "am_tool_calls m = Some (pre @ tc # post)"
      and "list_all (dispatchable w) pre"
    using run_tools_fail [OF that d] by (simp add: f)
  with p False show ?thesis by simp
qed

theorem non_object_arguments_raise_witness:
  "fn_name call_array = ''get_weather''
    \<and> json_loads (sample_world (asks [call_time, call_array, call_tokyo])) (fn_arguments call_array)
        = Inr (JArr [JStr ''Tokyo''])
    \<and> \<not> is_object (JArr [JStr ''Tokyo''])
    \<and> process_tool_call (sample_world (asks [call_time, call_array, call_tokyo])) call_array start =
        (Raise (AttributeError
           ([CHR 0x27] @ ''list'' @ [CHR 0x27] @ '' object has no attribute ''
              @ [CHR 0x27] @ ''get'' @ [CHR 0x27])), start)
    \<and> messages (snd (run (sample_world (asks [call_time, call_array, call_tokyo])))) =
        initial_messages @ [Reply (asks [call_time, call_array, call_tokyo]),
          ToolResult ''call_1'' ''get_current_time'' ''2024-05-01 12:00:00'']
    \<and> calls (trace (snd (run (sample_world (asks [call_time, call_array, call_tokyo]))))) =
        [RemoteCall (first_request initial_messages), Invoke ''get_current_time'' []]
    \<and> exit_status (fst (run (sample_world (asks [call_time, call_array, call_tokyo])))) = 1"
proof -
  let ?m = "asks [call_time, call_array, call_tokyo]"
  let ?w = "sample_world ?m"
  have n: "fn_name call_array = ''get_weather''" by (simp add: call_array_def)
  have j: "json_loads ?w (fn_arguments call_array) = Inr (JArr [JStr ''Tokyo''])"
    by (simp add: call_array_def sample_world_def sample_loads_def)
  have o: "\<not> is_object (JArr [JStr ''Tokyo''])" by simp
  have a: "am_tool_calls ?m = Some ([call_time] @ call_array # [call_tokyo])"
    by (simp add: asks_def)
  have p: "list_all (dispatchable ?w) [call_time]" by (simp add: sample_dispatchable)
  note t = non_object_arguments_raise [OF n j, of start ?m "[call_time]" "[call_tokyo]"]
  from t o have c: "process_tool_call ?w call_array start =
      (Raise (AttributeError (no_attribute (JArr [JStr ''Tokyo'']) ''get'')), start)"
    by simp
  from t o sample_first_reply [of ?m] a p
  have r: "run ?w =
      (Raise (SystemExit 1),
       \<lparr>messages = answered ?w ?m [call_time],
        trace = trace (after_reply ?m) @ tool_events ?w [call_time]
          @ [Print (''Error: '' @ no_attribute (JArr [JStr ''Tokyo'']) ''get'')]\<rparr>)"
    by simp
  have i: "fn_name call_time = ''get_current_time''" "tc_id call_time = ''call_1''"
    by (simp_all add: call_time_def)
  have k: "clock ?w = (\<lambda>k. ''2024-05-01 12:00:00'')"
    by (simp add: sample_world_def)
  show ?thesis unfolding r c
    by (simp add: n j answered_def after_reply_def tool_text_def requested_def i k
          no_attribute_def)
qed

text \<open>
  C4, as the code has it. For a request whose function is neither \<open>get_current_time\<close> nor
  \<open>get_weather\<close>, the \<open>if\<close>/\<open>elif\<close>/\<open>else\<close> on the name never raises, whatever the
  decoded arguments are: it gives the text "Error: Function", the name, "not implemented".
  When the payload of such a request decodes, the loop appends that text as the request's
  tool-role message and goes on with the remaining requests; when every request of the
  reply dispatches, the follow-up request is sent with that message in the conversation.
\<close>

theorem unknown_function_answered:
  assumes "fn_name tc \<noteq> ''get_current_time''" and "fn_name tc \<noteq> ''get_weather''"
  shows "dispatch w (fn_name tc) v s =
        (Return (''Error: Function '' @ fn_name tc @ '' not implemented''), s)
    \<and> (json_loads w (fn_arguments tc) = Inr v \<longrightarrow>
          process_tool_calls w (tc # rest) s =
            process_tool_calls w rest
              \<lparr>messages = messages s
                 @ [ToolResult (tc_id tc) (fn_name tc)
                      (''Error: Function '' @ fn_name tc @ '' not implemented'')],
               trace = trace s @ [Print (''Tool used: '' @ fn_name tc)]\<rparr>)
    \<and> (first_reply w = Some m \<and> am_tool_calls m = Some tcs \<and> tc \<in> set tcs
          \<and> list_all (dispatchable w) tcs
        \<longrightarrow> remote_calls (trace (snd (run w))) =
              [first_request initial_messages, followup_request (messages (snd (run w)))]
          \<and> ToolResult (tc_id tc) (fn_name tc)
               (''Error: Function '' @ fn_name tc @ '' not implemented'')
             \<in> set (messages (snd (run w))))"
proof -
  have d: "dispatch w (fn_name tc) v s =
        (Return (''Error: Function '' @ fn_name tc @ '' not implemented''), s)"
    using assms by (simp add: dispatch_def)
  have l: "process_tool_calls w (tc # rest) s =
            process_tool_calls w rest
              \<lparr>messages = messages s
                 @ [ToolResult (tc_id tc) (fn_name tc)
                      (''Error: Function '' @ fn_name tc @ '' not implemented'')],
               trace = trace s @ [Print (''Tool used: '' @ fn_name tc)]\<rparr>"
    if "json_loads w (fn_arguments tc) = Inr v"
  proof -
    have "dispatchable w tc" using that assms by (simp add: dispatchable_def)
    from process_tool_call_ok [OF this, of s] show ?thesis
      using assms by (simp add: tool_text_def requested_def)
  qed
  have r: "remote_calls (trace (snd (run w))) =
              [first_request initial_messages, followup_request (messages (snd (run w)))]
          \<and> ToolResult (tc_id tc) (fn_name tc)
               (''Error: Function '' @ fn_name tc @ '' not implemented'')
             \<in> set (messages (snd (run w)))"
    if f: "first_reply w = Some m" and a: "am_tool_calls m = Some tcs" and t: "tc \<in> set tcs"
      and o: "list_all (dispatchable w) tcs"
  proof -
    from t have n: "tcs \<noteq> []" by auto
    show ?thesis
      unfolding run_tools_ok [OF f a n o]
      using unknown_message_in_tool_messages [OF t assms, of w 3]
      by (simp add: after_reply_def answered_def)
  qed
  from d l r show ?thesis by blast
qed

theorem unknown_function_answered_witness:
  "fn_name call_unknown \<noteq> ''get_current_time'' \<and> fn_name call_unknown \<noteq> ''get_weather''
    \<and> json_loads (sample_world (asks [call_unknown, call_time])) (fn_arguments call_unknown)
        = Inr (JObj [])
    \<and> fst (dispatch (sample_world (asks [call_unknown, call_time])) (fn_name call_unknown)
              (JObj []) start) =
        Return ''Error: Function get_stock_price not implemented''
    \<and> messages (snd (run (sample_world (asks [call_unknown, call_time])))) =
        initial_messages @ [Reply (asks [call_unknown, call_time]),
          ToolResult ''call_5'' ''get_stock_price''
            ''Error: Function get_stock_price not implemented'',
          ToolResult ''call_1'' ''get_current_time'' ''2024-05-01 12:00:00'']
    \<and> length (remote_calls (trace (snd (run (sample_world (asks [call_unknown, call_time])))))) = 2
    \<and> fst (run (sample_world (asks [call_unknown, call_time]))) = Return ()"
proof -
  let ?m = "asks [call_unknown, call_time]"
  let ?w = "sample_world ?m"
  have n: "fn_name call_unknown \<noteq> ''get_current_time''" "fn_name call_unknown \<noteq> ''get_weather''"
    "fn_name call_unknown = ''get_stock_price''" "tc_id call_unknown = ''call_5''"
    by (simp_all add: call_unknown_def)
  have j: "json_loads ?w (fn_arguments call_unknown) = Inr (JObj [])"
    by (simp add: call_unknown_def sample_world_def sample_loads_def)
  have a: "am_tool_calls ?m = Some [call_unknown, call_time]" by (simp add: asks_def)
  have o: "list_all (dispatchable ?w) [call_unknown, call_time]"
    by (simp add: sample_dispatchable)
  note t = unknown_function_answered [OF n(1,2), of ?w "JObj []" start "[]" ?m
      "[call_unknown, call_time]"]
  from t have d: "dispatch ?w (fn_name call_unknown) (JObj []) start =
      (Return (''Error: Function '' @ fn_name call_unknown @ '' not implemented''), start)"
    by simp
  from t sample_first_reply [of ?m] a o
  have c: "remote_calls (trace (snd (run ?w))) =
      [first_request initial_messages, followup_request (messages (snd (run ?w)))]"
    by simp
  have i: "fn_name call_time = ''get_current_time''" "tc_id call_time = ''call_1''"
    by (simp_all add: call_time_def)
  have k: "clock ?w = (\<lambda>k. ''2024-05-01 12:00:00'')"
    by (simp add: sample_world_def)
  have s: "service_of ?w (followup_request ms) = Inr [sample_final]" for ms
    by (simp add: service_of_def sample_world_def sample_service_def followup_request_def)
  have r: "run ?w = (Return (),
      \<lparr>messages = answered ?w ?m [call_unknown, call_time],
       trace = trace (after_reply ?m) @ tool_events ?w [call_unknown, call_time]
         @ [RemoteCall (followup_request (answered ?w ?m [call_unknown, call_time]))]
         @ closing (Inr [sample_final])\<rparr>)"
    using run_tools_ok [OF sample_first_reply a _ o] by (simp add: s)
  show ?thesis unfolding c d
    by (simp add: n j r answered_def tool_text_def requested_def i k)
qed

text \<open>
  C4, as the specification states it for every request with such a name, fails: the
  payload \<open>{bad\<close> of a request for \<open>get_stock_price\<close> raises before the name is looked
  at, no tool-role message is appended, and the run exits with status 1 without a
  follow-up request.
\<close>

theorem unknown_function_counterexample:
  "fn_name call_unknown_malformed \<noteq> ''get_current_time''
    \<and> fn_name call_unknown_malformed \<noteq> ''get_weather''
    \<and> process_tool_call (sample_world (asks [call_unknown_malformed])) call_unknown_malformed
          start =
        (Raise (JSONDecodeError
           ''Expecting property name enclosed in double quotes: line 1 column 2 (char 1)''),
         start)
    \<and> messages (snd (run (sample_world (asks [call_unknown_malformed])))) =
        initial_messages @ [Reply (asks [call_unknown_malformed])]
    \<and> remote_calls (trace (snd (run (sample_world (asks [call_unknown_malformed]))))) =
        [first_request initial_messages]
    \<and> fst (run (sample_world (asks [call_unknown_malformed]))) = Raise (SystemExit 1)"
proof -
  let ?m = "asks [call_unknown_malformed]"
  have a: "am_tool_calls ?m = Some ([] @ call_unknown_malformed # [])" by (simp add: asks_def)
  have r: "run (sample_world ?m) =
     (Raise (SystemExit 1),
      \<lparr>messages = answered (sample_world ?m) ?m [],
       trace = trace (after_reply ?m) @ tool_events (sample_world ?m) []
         @ [Print (''Error: '' @ str_exn (failure (sample_world ?m) call_unknown_malformed))]\<rparr>)"
    by (rule run_tools_fail [OF sample_first_reply a _ sample_dispatchable(6)]) simp
  have n: "fn_name call_unknown_malformed \<noteq> ''get_current_time''"
    "fn_name call_unknown_malformed \<noteq> ''get_weather''"
    by (simp_all add: call_unknown_malformed_def)
  show ?thesis unfolding r
    by (simp add: process_tool_call_fails [OF sample_dispatchable(6)] sample_failure
          answered_def after_reply_def n)
qed

text \<open>
  C9. The conversation is append-only. Printing, the environment check, a remote call,
  reading the first choice, the dispatch on the name and the exception handler leave
  \<open>messages\<close> as it is; appending adds one message at the end; one pass of the loop adds
  the request's tool-role message at the end or nothing, and the whole loop adds the
  messages of the requests it dispatched, in their order. The body of \<open>try\<close> leaves
  \<open>messages\<close> as it was (the client could not be built) or creates it with the two initial
  messages and extends it from there. Over a run, the conversation every remote call was
  sent with is a prefix of the conversation at the end; the assistant's reply, once
  appended, is still there at the end, and so is every tool-role message.
\<close>

theorem conversation_append_only:
  "messages (py_print line s) = messages s
    \<and> messages (snd (check_env w s)) = messages s
    \<and> messages (snd (create service rq s)) = messages s
    \<and> messages (snd (first_choice r s)) = messages s
    \<and> messages (snd (dispatch w n a s)) = messages s
    \<and> messages (snd (handle_exception p)) = messages (snd p)
    \<and> messages (append_message x s) = messages s @ [x]
    \<and> prefix (messages s) (messages (snd (process_tool_call w tc s)))
    \<and> prefix (messages s) (messages (snd (process_tool_calls w tcs s)))
    \<and> prefix (messages s) (messages (snd (answer w service m s)))
    \<and> (messages (snd (main_try w s)) = messages s
        \<or> prefix initial_messages (messages (snd (main_try w s))))
    \<and> (messages (snd (run w)) = [] \<or> prefix initial_messages (messages (snd (run w))))
    \<and> messages (snd (process_tool_call w tc s)) =
        (if dispatchable w tc
         then messages s
           @ [ToolResult (tc_id tc) (fn_name tc) (tool_text w (length (trace s)) tc)]
         else messages s)
    \<and> messages (snd (process_tool_calls w tcs s)) =
        messages s @ tool_messages w (length (trace s)) (takeWhile (dispatchable w) tcs)
    \<and> (\<forall>q\<in>set (remote_calls (trace (snd (run w)))).
          prefix (rq_messages q) (messages (snd (run w))))
    \<and> (first_reply w = Some m'
        \<longrightarrow> prefix (initial_messages @ [Reply m']) (messages (snd (run w))))
    \<and> (first_reply w = Some m' \<and> am_tool_calls m' = Some tcs'
        \<longrightarrow> messages (snd (run w)) =
              initial_messages @ [Reply m']
                @ tool_messages w 3 (takeWhile (dispatchable w) tcs'))"
proof -
  have r: "messages (snd (run w)) = [] \<or> prefix initial_messages (messages (snd (run w)))"
  proof (cases "key_set w")
    case True
    show ?thesis
      using prefix_main_try [of w "py_print ''Starting Use Case 2: Agent with Tool Example'' start"]
      by (simp add: run_def main_def check_env_ok [OF True] start_def)
  next
    case False
    then have "check_env w start =
      (Raise (SystemExit 1),
       py_print ''Please set it in the .env file or as an environment variable.''
         (py_print ''Error: OPENAI_API_KEY environment variable is not set.'' start))"
      by (auto simp: key_set_def check_env_def split: option.splits)
    then show ?thesis by (simp add: run_def main_def start_def)
  qed
  have c: "messages (snd (process_tool_call w tc s)) =
        (if dispatchable w tc
         then messages s
           @ [ToolResult (tc_id tc) (fn_name tc) (tool_text w (length (trace s)) tc)]
         else messages s)"
    by (simp add: process_tool_call_ok process_tool_call_fails)
  have e: "first_reply w = Some m' \<and> am_tool_calls m' = Some tcs'
        \<longrightarrow> messages (snd (run w)) =
              initial_messages @ [Reply m']
                @ tool_messages w 3 (takeWhile (dispatchable w) tcs')"
    using run_with_reply [of w m' tcs'] by blast
  have f: "first_reply w = Some m'
        \<longrightarrow> prefix (initial_messages @ [Reply m']) (messages (snd (run w)))"
    using reply_stays [of w m'] by blast
  have o: "messages (py_print line s) = messages s
    \<and> messages (snd (check_env w s)) = messages s
    \<and> messages (snd (create service rq s)) = messages s
    \<and> messages (snd (first_choice r s)) = messages s
    \<and> messages (snd (dispatch w n a s)) = messages s
    \<and> messages (snd (handle_exception p)) = messages (snd p)
    \<and> messages (append_message x s) = messages s @ [x]"
    by simp
  from o r c e f loop_messages [of w tcs s] requests_are_prefixes [of w]
    prefix_main_try [of w s] prefix_process_tool_call [of s w tc]
    prefix_process_tool_calls [of "messages s" s w tcs]
    prefix_answer [of "messages s" s w service m]
  show ?thesis by blast
qed

theorem conversation_append_only_witness:
  "first_reply (sample_world (asks [call_time, call_tokyo])) = Some (asks [call_time, call_tokyo])
    \<and> am_tool_calls (asks [call_time, call_tokyo]) = Some [call_time, call_tokyo]
    \<and> map rq_messages
         (remote_calls (trace (snd (run (sample_world (asks [call_time, call_tokyo])))))) =
        [initial_messages,
         initial_messages @ [Reply (asks [call_time, call_tokyo]),
           ToolResult ''call_1'' ''get_current_time'' ''2024-05-01 12:00:00'',
           ToolResult ''call_2'' ''get_weather''
             (''The weather in Tokyo is currently sunny and 72'' @ [CHR 0xC2, CHR 0xB0]
                @ ''F.'')]]
    \<and> list_all (\<lambda>q. prefix (rq_messages q)
                   (messages (snd (run (sample_world (asks [call_time, call_tokyo]))))))
         (remote_calls (trace (snd (run (sample_world (asks [call_time, call_tokyo]))))))
    \<and> prefix (initial_messages @ [Reply (asks [call_time, call_tokyo])])
         (messages (snd (run (sample_world (asks [call_time, call_tokyo])))))"
proof -
  let ?m = "asks [call_time, call_tokyo]"
  let ?w = "sample_world ?m"
  have a: "am_tool_calls ?m = Some [call_time, call_tokyo]" by (simp add: asks_def)
  note t = conversation_append_only [of _ _ ?w _ _ _ _ _ _ _ _ _ _ ?m "[call_time, call_tokyo]"]
  from t have b: "\<forall>q\<in>set (remote_calls (trace (snd (run ?w)))).
      prefix (rq_messages q) (messages (snd (run ?w)))"
    by blast
  from t sample_first_reply [of ?m]
  have p: "prefix (initial_messages @ [Reply ?m]) (messages (snd (run ?w)))"
    by blast
  have c: "map rq_messages (remote_calls (trace (snd (run ?w)))) =
        [initial_messages,
         initial_messages @ [Reply ?m,
           ToolResult ''call_1'' ''get_current_time'' ''2024-05-01 12:00:00'',
           ToolResult ''call_2'' ''get_weather''
             (''The weather in Tokyo is currently sunny and 72'' @ [CHR 0xC2, CHR 0xB0]
                @ ''F.'')]]"
    by (simp add: sample_two_calls first_request_def followup_request_def)
  from b have l: "list_all (\<lambda>q. prefix (rq_messages q) (messages (snd (run ?w))))
         (remote_calls (trace (snd (run ?w))))"
    by (simp add: list_all_iff)
  from sample_first_reply [of ?m] a c l p show ?thesis by blast
qed

text \<open>
  C1, as the code has it. When the first reply carries \<open>N \<ge> 1\<close> requests and every one
  of them dispatches (its payload decodes, to an object if it names \<open>get_weather\<close>), the
  calls of the run are the first remote call, then for each request in the reply's order
  the call it asks for (one call of \<open>get_current_time\<close> or \<open>get_weather\<close> for a request
  naming it, none for any other name), then one follow-up remote call. Each request is
  answered by one tool-role message and one line "Tool used", in the reply's order. Every
  run, whatever the world, makes at most two remote calls.
\<close>

theorem tool_calls_dispatched_in_order:
  assumes "first_reply w = Some m" and "am_tool_calls m = Some tcs" and "tcs \<noteq> []"
    and "list_all (dispatchable w) tcs"
  shows "calls (trace (snd (run w))) =
        RemoteCall (first_request initial_messages) # concat (map (requested w) tcs)
          @ [RemoteCall (followup_request (answered w m tcs))]
    \<and> map fst (invocations (trace (snd (run w)))) =
        filter (\<lambda>n. n = ''get_current_time'' \<or> n = ''get_weather'') (map fn_name tcs)
    \<and> list_all2 answers (drop (Suc (length initial_messages)) (messages (snd (run w)))) tcs
    \<and> take (length tcs) (drop 2 (printed (trace (snd (run w))))) =
        map (\<lambda>tc. ''Tool used: '' @ fn_name tc) tcs
    \<and> length (remote_calls (trace (snd (run w)))) = 2
    \<and> length (remote_calls (trace (snd (run w')))) \<le> 2"
proof -
  note r = run_tools_ok [OF assms]
  have "take (length tcs) (map (\<lambda>tc. ''Tool used: '' @ fn_name tc) tcs @ xs) =
      map (\<lambda>tc. ''Tool used: '' @ fn_name tc) tcs" for xs
    by simp
  then show ?thesis
    unfolding r
    using invoked_names_tool_events [OF assms(4)] at_most_two_remote_calls [of w']
      tool_messages_answers [of w 3 tcs]
    by (simp add: after_reply_def answered_def printed_tool_events)
qed

theorem tool_calls_dispatched_in_order_witness:
  "first_reply (sample_world (asks [call_time, call_tokyo])) = Some (asks [call_time, call_tokyo])
    \<and> list_all (dispatchable (sample_world (asks [call_time, call_tokyo]))) [call_time, call_tokyo]
    \<and> calls (trace (snd (run (sample_world (asks [call_time, call_tokyo]))))) =
        [RemoteCall (first_request initial_messages),
         Invoke ''get_current_time'' [],
         Invoke ''get_weather'' [JStr ''Tokyo''],
         RemoteCall (followup_request
           (initial_messages @ [Reply (asks [call_time, call_tokyo]),
              ToolResult ''call_1'' ''get_current_time'' ''2024-05-01 12:00:00'',
              ToolResult ''call_2'' ''get_weather''
                (''The weather in Tokyo is currently sunny and 72'' @ [CHR 0xC2, CHR 0xB0]
                   @ ''F.'')]))]
    \<and> map fst (invocations (trace (snd (run (sample_world (asks [call_time, call_tokyo])))))) =
        [''get_current_time'', ''get_weather'']
    \<and> length (remote_calls (trace (snd (run (sample_world (asks [call_time, call_tokyo])))))) = 2"
proof -
  let ?m = "asks [call_time, call_tokyo]"
  let ?w = "sample_world ?m"
  have a: "am_tool_calls ?m = Some [call_time, call_tokyo]" by (simp add: asks_def)
  have o: "list_all (dispatchable ?w) [call_time, call_tokyo]"
    by (simp add: sample_dispatchable)
  have n: "[call_time, call_tokyo] \<noteq> []" by simp
  note t = tool_calls_dispatched_in_order [OF sample_first_reply a n o, of ?w]
  from t have c: "calls (trace (snd (run ?w))) =
        RemoteCall (first_request initial_messages)
          # concat (map (requested ?w) [call_time, call_tokyo])
          @ [RemoteCall (followup_request (answered ?w ?m [call_time, call_tokyo]))]"
    by simp
  from t have i: "map fst (invocations (trace (snd (run ?w)))) =
        filter (\<lambda>n. n = ''get_current_time'' \<or> n = ''get_weather'')
          (map fn_name [call_time, call_tokyo])"
    by simp
  from t have l: "length (remote_calls (trace (snd (run ?w)))) = 2" by simp
  show ?thesis unfolding c i l
    by (simp add: sample_first_reply o [simplified] requested_def answered_def tool_text_def
          sample_names sample_tokyo sample_clock get_weather_def format_value_def)
qed

text \<open>
  C1, as the specification states it, fails in two ways. A reply with the one request
  \<open>get_weather\<close> and the payload \<open>{bad\<close> leads to no call of a local function and no
  follow-up call: the run exits with status 1. A reply with the one request
  \<open>get_stock_price\<close> and the payload \<open>{}\<close> is answered and followed up, with no local
  function called.
\<close>

theorem tool_calls_dispatched_counterexample:
  "am_tool_calls (asks [call_malformed]) = Some [call_malformed]
    \<and> invocations (trace (snd (run (sample_world (asks [call_malformed]))))) = []
    \<and> remote_calls (trace (snd (run (sample_world (asks [call_malformed]))))) =
        [first_request initial_messages]
    \<and> exit_status (fst (run (sample_world (asks [call_malformed])))) = 1
    \<and> am_tool_calls (asks [call_unknown]) = Some [call_unknown]
    \<and> invocations (trace (snd (run (sample_world (asks [call_unknown]))))) = []
    \<and> length (remote_calls (trace (snd (run (sample_world (asks [call_unknown])))))) = 2"
proof -
  let ?m = "asks [call_malformed]"
  let ?u = "asks [call_unknown]"
  have a: "am_tool_calls ?m = Some ([] @ call_malformed # [])" by (simp add: asks_def)
  have r: "run (sample_world ?m) =
     (Raise (SystemExit 1),
      \<lparr>messages = answered (sample_world ?m) ?m [],
       trace = trace (after_reply ?m) @ tool_events (sample_world ?m) []
         @ [Print (''Error: '' @ str_exn (failure (sample_world ?m) call_malformed))]\<rparr>)"
    by (rule run_tools_fail [OF sample_first_reply a _ sample_dispatchable(4)]) simp
  have b: "am_tool_calls ?u = Some [call_unknown]" by (simp add: asks_def)
  have o: "list_all (dispatchable (sample_world ?u)) [call_unknown]"
    by (simp add: sample_dispatchable)
  have q: "run (sample_world ?u) =
     (outcome (Inr [sample_final]),
      \<lparr>messages = answered (sample_world ?u) ?u [call_unknown],
       trace = trace (after_reply ?u) @ tool_events (sample_world ?u) [call_unknown]
         @ [RemoteCall (followup_request (answered (sample_world ?u) ?u [call_unknown]))]
         @ closing (Inr [sample_final])\<rparr>)"
    using run_tools_ok [OF sample_first_reply b _ o] by (simp add: sample_followup)
  show ?thesis unfolding r q
    by (simp add: after_reply_def requested_def sample_names asks_def)
qed





end
